theory Spec2Isabelle
  imports Complex_Main "HOL-Library.Word"
begin

section \<open>JavaScript values\<close>

text \<open>
  A JavaScript string is a sequence of UTF-16 code units.  Every string literal of the
  sources is ASCII and is written \<open>lit ''...''\<close>.
\<close>

type_synonym jschar = "16 word"
type_synonym jsstring = "jschar list"

definition lit :: "string \<Rightarrow> jsstring" where
  "lit s = map (\<lambda>c. of_nat (of_char c)) s"

text \<open>
  \<open>String.prototype.trim\<close> removes white space and line terminators from both ends:
  TAB, LF, VT, FF, CR, SP, NBSP, the other space separators and the byte order mark.
\<close>

definition is_js_space :: "jschar \<Rightarrow> bool" where
  "is_js_space c \<longleftrightarrow>
     c \<in> {0x9, 0xA, 0xB, 0xC, 0xD, 0x20, 0xA0, 0x1680, 0x2028, 0x2029, 0x202F, 0x205F,
          0x3000, 0xFEFF}
     \<or> (0x2000 \<le> c \<and> c \<le> 0x200A)"

definition trim :: "jsstring \<Rightarrow> jsstring" where
  "trim s = rev (dropWhile is_js_space (rev (dropWhile is_js_space s)))"

text \<open>Decimal digits of a natural number, as \<open>String(n)\<close> prints an integer.\<close>

fun digits :: "nat \<Rightarrow> jsstring" where
  "digits n =
     (if n < 10 then [of_nat (48 + n)] else digits (n div 10) @ [of_nat (48 + n mod 10)])"

declare digits.simps [simp del]

text \<open>The values \<open>JSON.parse\<close> produces and \<open>JSON.stringify\<close> consumes.\<close>

datatype json =
    JNull
  | JBool bool
  | JNum rat
  | JStr jsstring
  | JArr "json list"
  | JObj "(jsstring \<times> json) list"

text \<open>
  What a \<open>try\<close> block can catch: an object that is \<open>instanceof Error\<close>, with its
  message, or some other thrown value (the \<open>ProgressEvent\<close> of a failed file read).
\<close>

datatype exn = Error jsstring | Thrown

section \<open>HTTP requests and responses\<close>

datatype http_method = GET_method | POST_method

text \<open>
  A call of \<open>fetch\<close>: the URL, the method, the header object literal in its written order
  and the value handed to \<open>JSON.stringify\<close> for the body (\<open>None\<close>: no body).
\<close>

record request =
  url :: jsstring
  http_method :: http_method
  headers :: "(jsstring \<times> jsstring) list"
  body :: "json option"

text \<open>
  What \<open>fetch\<close> resolves to.  \<open>text_result\<close> and \<open>json_result\<close> are the outcomes of
  awaiting \<open>response.text()\<close> and \<open>response.json()\<close>; both can reject.  The payload
  type is \<open>json\<close> where the code uses the parsed value untyped and the declared
  TypeScript interface where it stores the value in typed state.
\<close>

record 'a fetch_response =
  status :: nat
  statusText :: jsstring
  text_result :: "exn + jsstring"
  json_result :: "exn + 'a"

definition ok :: "('a, 'b) fetch_response_scheme \<Rightarrow> bool" where
  "ok r \<longleftrightarrow> 200 \<le> status r \<and> status r \<le> 299"

section \<open>The quiz view (PDFQuizView)\<close>

datatype question_type = Mcq | Short_answer

record question =
  q_id :: nat
  question_text :: jsstring
  question_type :: question_type
  options :: "jsstring list option"
  correct_answer :: jsstring
  hint :: jsstring
  citation :: jsstring
  points :: rat

record quiz_result =
  question_id :: nat
  is_correct :: bool
  user_answer :: jsstring
  result_correct_answer :: jsstring
  result_citation :: jsstring
  points_earned :: rat
  total_points :: rat

record submission_response =
  result_list :: "quiz_result list"
  total_score :: rat
  max_score :: rat
  percentage :: rat

record quiz =
  quiz_id :: nat
  quiz_title :: jsstring
  questions :: "question list"

text \<open>
  The component's state hooks.  \<open>answers\<close> is an object keyed by question id; it is kept
  as an association list because \<open>handleSubmit\<close> enumerates it.  \<open>showHints\<close> is only
  ever read at a key, so it is a map.
\<close>

record view_state =
  quiz :: "quiz option"
  answers :: "(nat \<times> jsstring) list"
  showHints :: "nat \<rightharpoonup> bool"
  isSubmitting :: bool
  results :: "submission_response option"
  loading :: bool
  error :: "jsstring option"

text \<open>\<open>{...prev, [questionId]: answer}\<close>: an existing key keeps its place.\<close>

fun set_key :: "nat \<Rightarrow> jsstring \<Rightarrow> (nat \<times> jsstring) list \<Rightarrow> (nat \<times> jsstring) list" where
  "set_key k v [] = [(k, v)]"
| "set_key k v ((k', v') # kvs) =
     (if k = k' then (k, v) # kvs else (k', v') # set_key k v kvs)"

definition handleAnswerChange :: "nat \<Rightarrow> jsstring \<Rightarrow> view_state \<Rightarrow> view_state" where
  "handleAnswerChange questionId answer st =
     st\<lparr>answers := set_key questionId answer (answers st)\<rparr>"

text \<open>\<open>!prev[questionId]\<close>: a missing entry is \<open>undefined\<close>, which is falsy.\<close>

definition hint_shown :: "view_state \<Rightarrow> nat \<Rightarrow> bool" where
  "hint_shown st q = (case showHints st q of None \<Rightarrow> False | Some b \<Rightarrow> b)"

definition toggleHint :: "nat \<Rightarrow> view_state \<Rightarrow> view_state" where
  "toggleHint questionId st =
     st\<lparr>showHints := (showHints st)(questionId \<mapsto> \<not> hint_shown st questionId)\<rparr>"

text \<open>
  The predicate of the submit button,
  \<open>q => !answers[q.id] || answers[q.id].trim() === ""\<close>: the entry is missing, empty,
  or nothing but white space.
\<close>

definition unanswered :: "(nat \<times> jsstring) list \<Rightarrow> question \<Rightarrow> bool" where
  "unanswered ans q =
     (case map_of ans (q_id q) of
        None \<Rightarrow> True
      | Some a \<Rightarrow> a = [] \<or> trim a = [])"

text \<open>\<open>disabled={isSubmitting || !quiz || quiz.questions.some(...)}\<close>\<close>

definition submit_disabled :: "view_state \<Rightarrow> bool" where
  "submit_disabled st \<longleftrightarrow>
     isSubmitting st \<or>
     (case quiz st of
        None \<Rightarrow> True
      | Some qz \<Rightarrow> list_ex (unanswered (answers st)) (questions qz))"

text \<open>
  The button is part of the rendered tree only past the three early returns
  (\<open>loading\<close>, a truthy \<open>error\<close>, \<open>!quiz\<close>) and under \<open>!results\<close>.
\<close>

definition submit_rendered :: "view_state \<Rightarrow> bool" where
  "submit_rendered st \<longleftrightarrow>
     \<not> loading st \<and>
     (case error st of None \<Rightarrow> True | Some e \<Rightarrow> e = []) \<and>
     quiz st \<noteq> None \<and>
     results st = None"

text \<open>
  What a handler does besides updating its component's state, in order: a call of
  \<open>fetch\<close>, a \<open>console.error\<close>, and for the upload form the call of its
  \<open>onQuizGenerated\<close> property with two values that may be \<open>undefined\<close>.
\<close>

datatype effect =
    Fetch request
  | Console_error
  | OnQuizGenerated "json option" "json option"

fun fetches :: "effect list \<Rightarrow> request list" where
  "fetches [] = []"
| "fetches (Fetch r # es) = r # fetches es"
| "fetches (_ # es) = fetches es"

text \<open>
  \<open>Object.entries(answers)\<close> lists the keys that are array indices (below \<open>2\<^sup>3\<^sup>2 - 1\<close>)
  in ascending order and after them the other keys in the order of their creation;
  \<open>parseInt\<close> gives the key back as a number.  Quiz and question ids are taken up to
  \<open>2\<^sup>5\<^sup>3\<close>, where a number prints as its decimal digits.
\<close>

definition array_index :: "nat \<Rightarrow> bool" where
  "array_index k \<longleftrightarrow> k < 2 ^ 32 - 1"

definition object_entries :: "(nat \<times> jsstring) list \<Rightarrow> (nat \<times> jsstring) list" where
  "object_entries kvs =
     sort_key fst (filter (\<lambda>kv. array_index (fst kv)) kvs) @
     filter (\<lambda>kv. \<not> array_index (fst kv)) kvs"

definition submissionData :: "nat \<Rightarrow> (nat \<times> jsstring) list \<Rightarrow> json" where
  "submissionData quizId ans =
     JObj [(lit ''quiz_id'', JNum (of_nat quizId)),
           (lit ''answers'',
            JArr (map (\<lambda>(questionId, answer).
                         JObj [(lit ''question_id'', JNum (of_nat questionId)),
                               (lit ''answer'', JStr answer)])
                      (object_entries ans)))]"

definition submit_request :: "nat \<Rightarrow> (nat \<times> jsstring) list \<Rightarrow> request" where
  "submit_request quizId ans =
     \<lparr>url = lit ''/api/pdf-quizzes/quiz/'' @ digits quizId @ lit ''/submit'',
      http_method = POST_method,
      headers = [(lit ''Content-Type'', lit ''application/json''),
                 (lit ''Authorization'', lit ''Bearer '' @ digits 1)],
      body = Some (submissionData quizId ans)\<rparr>"

text \<open>
  The \<open>catch\<close> clause: \<open>error instanceof Error ? error.message : "Failed to submit quiz"\<close>.
\<close>

definition submit_error_message :: "exn \<Rightarrow> jsstring" where
  "submit_error_message e =
     (case e of Error m \<Rightarrow> m | Thrown \<Rightarrow> lit ''Failed to submit quiz'')"

text \<open>
  \<open>handleSubmit\<close>, run to completion against the network's answer.  Its only guard is
  \<open>if (!quiz) return\<close>.  The \<open>finally\<close> clause resets \<open>isSubmitting\<close> on every path
  that entered the \<open>try\<close>.
\<close>

definition handleSubmit ::
  "(request \<Rightarrow> exn + submission_response fetch_response) \<Rightarrow> nat \<Rightarrow> view_state
     \<Rightarrow> view_state \<times> effect list" where
  "handleSubmit net quizId st =
     (case quiz st of
        None \<Rightarrow> (st, [])
      | Some _ \<Rightarrow>
          (let req = submit_request quizId (answers st);
               failed = (\<lambda>e. (st\<lparr>error := Some (submit_error_message e),
                                  isSubmitting := False\<rparr>,
                               [Fetch req, Console_error]))
           in case net req of
                Inl e \<Rightarrow> failed e
              | Inr response \<Rightarrow>
                  if \<not> ok response
                  then failed (Error (lit ''Submission failed: '' @ statusText response))
                  else (case json_result response of
                          Inl e \<Rightarrow> failed e
                        | Inr result \<Rightarrow>
                            (st\<lparr>results := Some result, isSubmitting := False\<rparr>,
                             [Fetch req]))))"

text \<open>
  \<open>handleSubmit\<close> is referenced once, as the \<open>onClick\<close> of the submit button.  A click
  reaches the handler only when the button is in the tree and not disabled.
\<close>

definition click_submit ::
  "(request \<Rightarrow> exn + submission_response fetch_response) \<Rightarrow> nat \<Rightarrow> view_state
     \<Rightarrow> view_state \<times> effect list" where
  "click_submit net quizId st =
     (if submit_rendered st \<and> \<not> submit_disabled st then handleSubmit net quizId st
      else (st, []))"

text \<open>
  Numbers.  A JavaScript number that is finite is a rational; it is modelled by its exact
  value.  \<open>number_text\<close> is the text React renders for a number child, modelled for
  the integers up to \<open>2\<^sup>5\<^sup>3\<close> in magnitude, which print as their decimal digits
  (\<open>None\<close> otherwise).
\<close>

definition number_text :: "rat \<Rightarrow> jsstring option" where
  "number_text x =
     (if x = of_int \<lfloor>x\<rfloor> \<and> \<bar>x\<bar> \<le> 2 ^ 53
      then Some ((if x < 0 then lit ''-'' else []) @ digits (nat \<bar>\<lfloor>x\<rfloor>\<bar>))
      else None)"

text \<open>
  \<open>Number.prototype.toFixed(f)\<close> for \<open>f \<le> 100\<close> and a value below \<open>10\<^sup>2\<^sup>1\<close> in
  magnitude (\<open>None\<close> otherwise): the sign, then the integer \<open>n\<close> for which
  \<open>n / 10\<^sup>f\<close> is closest to the magnitude, the larger one on a tie, printed with at
  least \<open>f + 1\<close> digits and a point before the last \<open>f\<close>.
\<close>

definition toFixed :: "nat \<Rightarrow> rat \<Rightarrow> jsstring option" where
  "toFixed f x =
     (if 100 < f \<or> 10 ^ 21 \<le> \<bar>x\<bar> then None
      else
        let s = (if x < 0 then lit ''-'' else []);
            n = nat \<lfloor>\<bar>x\<bar> * 10 ^ f + 1 / 2\<rfloor>;
            m = digits n;
            m = (if length m \<le> f then replicate (f + 1 - length m) 0x30 @ m else m);
            k = length m
        in Some (s @ (if f = 0 then m else take (k - f) m @ lit ''.'' @ drop (k - f) m)))"

text \<open>
  The paragraph of the results summary, shown when \<open>results\<close> is not null:
  \<open>Score: {results.total_score}/{results.max_score} ({results.percentage.toFixed(1)}%)\<close>.
  The three numbers are fields of the response of the submit endpoint.
\<close>

definition score_line :: "submission_response \<Rightarrow> jsstring option" where
  "score_line r =
     (case number_text (total_score r) of
        None \<Rightarrow> None
      | Some t \<Rightarrow>
          (case number_text (max_score r) of
             None \<Rightarrow> None
           | Some m \<Rightarrow>
               (case toFixed 1 (percentage r) of
                  None \<Rightarrow> None
                | Some p \<Rightarrow>
                    Some (lit ''Score: '' @ t @ lit ''/'' @ m @ lit '' ('' @ p @ lit ''%)''))))"

section \<open>The upload form (PDFUpload)\<close>

text \<open>A \<open>File\<close> picked in the file input: its name, its MIME type and its bytes.\<close>

record js_file =
  file_name :: jsstring
  file_type :: jsstring
  file_bytes :: "8 word list"

datatype status_type = Status_success | Status_error

record upload_status =
  status_type :: "status_type option"
  message :: "json option"

text \<open>
  The state hooks of the form.  The hook \<open>file\<close> is the field \<open>form_file\<close>.  The
  message of the status is what the code stores there: a string, or \<open>result.message\<close>,
  which may be any JSON value or \<open>undefined\<close> (\<open>None\<close>).
\<close>

record form_state =
  form_file :: "js_file option"
  title :: jsstring
  isUploading :: bool
  uploadStatus :: upload_status

text \<open>
  \<open>name.replace(/\.pdf$/i, "")\<close>: the pattern matches only at the end of the name, the
  four code units \<open>.\<close>, \<open>p\<close>, \<open>d\<close>, \<open>f\<close> in either case.
\<close>

definition is_dot_pdf :: "jsstring \<Rightarrow> bool" where
  "is_dot_pdf s \<longleftrightarrow>
     (case s of
        [a, b, c, d] \<Rightarrow>
          a = 0x2E \<and> (b = 0x70 \<or> b = 0x50) \<and> (c = 0x64 \<or> c = 0x44) \<and> (d = 0x66 \<or> d = 0x46)
      | _ \<Rightarrow> False)"

definition strip_pdf_suffix :: "jsstring \<Rightarrow> jsstring" where
  "strip_pdf_suffix name =
     (let n = length name
      in if 4 \<le> n \<and> is_dot_pdf (drop (n - 4) name) then take (n - 4) name else name)"

text \<open>
  \<open>handleFileChange\<close>, given \<open>event.target.files?.[0]\<close> (\<open>None\<close> when the selection is
  empty).
\<close>

definition handleFileChange :: "js_file option \<Rightarrow> form_state \<Rightarrow> form_state" where
  "handleFileChange selectedFile st =
     (case selectedFile of
        None \<Rightarrow> st
      | Some f \<Rightarrow>
          if file_type f = lit ''application/pdf''
          then st\<lparr>form_file := Some f, title := strip_pdf_suffix (file_name f)\<rparr>
          else st\<lparr>uploadStatus :=
                    \<lparr>status_type = Some Status_error,
                     message = Some (JStr (lit ''Please select a valid PDF file.''))\<rparr>\<rparr>)"

text \<open>
  The browser's part of \<open>fileToBase64\<close>.  \<open>readAsDataURL\<close> produces
  \<open>data:<type>;base64,<data>\<close>, where the data is the base64 encoding of the bytes:
  three bytes give four characters of the alphabet, a last group of one or two bytes is
  padded with \<open>=\<close>.
\<close>

definition b64_alphabet :: jsstring where
  "b64_alphabet = lit ''ABCDEFGHIJKLMNOPQRSTUVWXYZabcdefghijklmnopqrstuvwxyz0123456789+/''"

definition b64_char :: "nat \<Rightarrow> jschar" where
  "b64_char n = b64_alphabet ! n"

fun base64_encode :: "8 word list \<Rightarrow> jsstring" where
  "base64_encode [] = []"
| "base64_encode [a] =
     [b64_char (unat a div 4), b64_char (unat a mod 4 * 16), 0x3D, 0x3D]"
| "base64_encode [a, b] =
     [b64_char (unat a div 4), b64_char (unat a mod 4 * 16 + unat b div 16),
      b64_char (unat b mod 16 * 4), 0x3D]"
| "base64_encode (a # b # c # rest) =
     [b64_char (unat a div 4), b64_char (unat a mod 4 * 16 + unat b div 16),
      b64_char (unat b mod 16 * 4 + unat c div 64), b64_char (unat c mod 64)] @ base64_encode rest"

definition readAsDataURL :: "js_file \<Rightarrow> jsstring" where
  "readAsDataURL f = lit ''data:'' @ file_type f @ lit '';base64,'' @ base64_encode (file_bytes f)"

text \<open>\<open>s.split(c)\<close> for a separator of one code unit, and \<open>xs[i]\<close> with \<open>undefined\<close> out of range.\<close>

fun split_on :: "jschar \<Rightarrow> jsstring \<Rightarrow> jsstring list" where
  "split_on c [] = [[]]"
| "split_on c (x # xs) =
     (if x = c then [] # split_on c xs
      else (case split_on c xs of
              [] \<Rightarrow> [[x]]
            | y # ys \<Rightarrow> (x # y) # ys))"

definition element :: "'a list \<Rightarrow> nat \<Rightarrow> 'a option" where
  "element xs i = (if i < length xs then Some (xs ! i) else None)"

text \<open>
  What the submit handler runs against: whether the \<open>FileReader\<close> fires \<open>onerror\<close>
  instead of \<open>onload\<close>, the answer of the network to the call of \<open>fetch\<close>, and the
  message of the engine's \<open>TypeError\<close> for reading a property of \<open>null\<close>.
\<close>

record upload_env =
  read_fails :: bool
  upload_fetch :: "request \<Rightarrow> exn + json fetch_response"
  null_property_message :: jsstring

text \<open>
  \<open>fileToBase64\<close>: \<open>reject(error)\<close> with the reader's event, or
  \<open>resolve(result.split(",")[1])\<close>.
\<close>

definition fileToBase64 :: "upload_env \<Rightarrow> js_file \<Rightarrow> exn + jsstring option" where
  "fileToBase64 env f =
     (if read_fails env then Inl Thrown
      else Inr (element (split_on 0x2C (readAsDataURL f)) 1))"

text \<open>
  \<open>result.message\<close>, \<open>result.id\<close>, \<open>result.title\<close> on a value that is not \<open>null\<close>: the
  member of an object, \<open>undefined\<close> on anything else.
\<close>

fun property :: "json \<Rightarrow> jsstring \<Rightarrow> json option" where
  "property (JObj kvs) name = map_of kvs name"
| "property _ name = None"

text \<open>
  The call of \<open>fetch\<close>.  \<open>JSON.stringify\<close> leaves out a member whose value is
  \<open>undefined\<close>.
\<close>

definition upload_request :: "jsstring \<Rightarrow> jsstring option \<Rightarrow> request" where
  "upload_request t base64 =
     \<lparr>url = lit ''/api/pdf-quizzes/upload'',
      http_method = POST_method,
      headers = [(lit ''Content-Type'', lit ''application/json''),
                 (lit ''Authorization'', lit ''Bearer '' @ digits 1)],
      body = Some (JObj ((lit ''title'', JStr (trim t)) #
                         (case base64 of
                            None \<Rightarrow> []
                          | Some b \<Rightarrow> [(lit ''file_content'', JStr b)])))\<rparr>"

text \<open>
  The \<open>catch\<close> and \<open>finally\<close> clauses, after the effects issued so far:
  \<open>error instanceof Error ? error.message : "Upload failed. Please try again."\<close>.
\<close>

definition upload_failed :: "form_state \<Rightarrow> effect list \<Rightarrow> exn \<Rightarrow> form_state \<times> effect list" where
  "upload_failed st issued e =
     (st\<lparr>uploadStatus :=
           \<lparr>status_type = Some Status_error,
            message = Some (JStr (case e of
                                    Error m \<Rightarrow> m
                                  | Thrown \<Rightarrow> lit ''Upload failed. Please try again.''))\<rparr>,
         isUploading := False\<rparr>,
      issued @ [Console_error])"

text \<open>
  \<open>handleSubmit\<close> of the form, run to completion.  The guard \<open>!file || !title.trim()\<close>
  returns before the \<open>try\<close>.  Inside it, a failed read, a \<open>fetch\<close> that throws, a
  response that is not ok, a payload that does not parse and a \<open>null\<close> payload all end
  in the \<open>catch\<close> clause.  \<open>onQuizGenerated\<close> is the parent's \<open>handleQuizGenerated\<close>,
  a state setter, which returns normally.
\<close>

definition upload_handleSubmit :: "upload_env \<Rightarrow> form_state \<Rightarrow> form_state \<times> effect list" where
  "upload_handleSubmit env st =
     (case form_file st of
        None \<Rightarrow>
          (st\<lparr>uploadStatus :=
                \<lparr>status_type = Some Status_error,
                 message = Some (JStr (lit ''Please select a PDF file and enter a title.''))\<rparr>\<rparr>,
           [])
      | Some f \<Rightarrow>
          if trim (title st) = []
          then (st\<lparr>uploadStatus :=
                      \<lparr>status_type = Some Status_error,
                       message =
                         Some (JStr (lit ''Please select a PDF file and enter a title.''))\<rparr>\<rparr>,
                [])
          else
            (case fileToBase64 env f of
               Inl e \<Rightarrow> upload_failed st [] e
             | Inr base64 \<Rightarrow>
                 (let req = upload_request (title st) base64
                  in case upload_fetch env req of
                       Inl e \<Rightarrow> upload_failed st [Fetch req] e
                     | Inr response \<Rightarrow>
                         if \<not> ok response
                         then upload_failed st [Fetch req]
                                (Error (lit ''Upload failed: '' @ statusText response))
                         else
                           (case json_result response of
                              Inl e \<Rightarrow> upload_failed st [Fetch req] e
                            | Inr result \<Rightarrow>
                                if result = JNull
                                then upload_failed st [Fetch req]
                                       (Error (null_property_message env))
                                else
                                  (st\<lparr>uploadStatus :=
                                        \<lparr>status_type = Some Status_success,
                                         message = property result (lit ''message'')\<rparr>,
                                      form_file := None,
                                      title := [],
                                      isUploading := False\<rparr>,
                                   [Fetch req,
                                    OnQuizGenerated (property result (lit ''id''))
                                                    (property result (lit ''title''))])))))"

section \<open>The proxy route handlers\<close>

text \<open>
  An incoming \<open>NextRequest\<close>: its headers, keyed by lower-case name as a \<open>Headers\<close>
  object keeps them, and the outcome of awaiting \<open>request.json()\<close>, which rejects when
  the body is not JSON.
\<close>

record proxy_request =
  req_headers :: "jsstring \<rightharpoonup> jsstring"
  req_json :: "exn + json"

definition ascii_lower :: "jschar \<Rightarrow> jschar" where
  "ascii_lower c = (if 0x41 \<le> c \<and> c \<le> 0x5A then c + 0x20 else c)"

text \<open>\<open>headers.get(name)\<close>: the value, or \<open>null\<close> when there is no such header.\<close>

definition headers_get :: "(jsstring \<rightharpoonup> jsstring) \<Rightarrow> jsstring \<Rightarrow> jsstring option" where
  "headers_get h name = h (map ascii_lower name)"

text \<open>\<open>a || b\<close> for a string or \<open>null\<close>/\<open>undefined\<close> on the left: both \<open>null\<close> and \<open>""\<close> are falsy.\<close>

definition or_else :: "jsstring option \<Rightarrow> jsstring \<Rightarrow> jsstring" where
  "or_else a b = (case a of None \<Rightarrow> b | Some s \<Rightarrow> if s = [] then b else s)"

text \<open>
  What a route handler runs against: the environment variable and the backend, which
  answers a call of \<open>fetch\<close> with a response or makes it throw.
\<close>

record proxy_env =
  NEXT_PUBLIC_BACKEND_URL :: "jsstring option"
  backend :: "request \<Rightarrow> exn + json fetch_response"

definition BACKEND_URL :: "proxy_env \<Rightarrow> jsstring" where
  "BACKEND_URL env = or_else (NEXT_PUBLIC_BACKEND_URL env) (lit ''http://localhost:8000'')"

text \<open>
  \<open>NextResponse.json(body, {status})\<close>: a JSON response with that body and status, 200
  when no status is given.  The call initialises a \<open>Response\<close> with a body, which throws
  a \<open>RangeError\<close> for a status outside 200-599 and a \<open>TypeError\<close> for a null-body
  status (101, 103, 204, 205, 304); \<open>None\<close> is the throw.  The statuses 200 and 500 that
  the handlers write themselves are accepted.
\<close>

record next_response =
  response_body :: json
  response_status :: nat

definition null_body_status :: "nat \<Rightarrow> bool" where
  "null_body_status s \<longleftrightarrow> s \<in> {101, 103, 204, 205, 304}"

definition NextResponse_json :: "json \<Rightarrow> nat \<Rightarrow> next_response option" where
  "NextResponse_json b s =
     (if s < 200 \<or> 599 < s \<or> null_body_status s then None
      else Some \<lparr>response_body = b, response_status = s\<rparr>)"

definition internal_server_error :: next_response where
  "internal_server_error =
     \<lparr>response_body = JObj [(lit ''error'', JStr (lit ''Internal server error''))],
      response_status = 500\<rparr>"

text \<open>
  \<open>NextResponse.json({ error: `Backend error: ${response.statusText}` },
  { status: response.status })\<close>, inside the \<open>try\<close> of both handlers.
\<close>

definition backend_error :: "json fetch_response \<Rightarrow> next_response option" where
  "backend_error response =
     NextResponse_json
       (JObj [(lit ''error'', JStr (lit ''Backend error: '' @ statusText response))])
       (status response)"

text \<open>The quiz fetch proxy, \<open>GET\<close> of \<open>/api/pdf-quizzes/quiz/[quizId]\<close>.\<close>

definition quiz_call :: "proxy_env \<Rightarrow> proxy_request \<Rightarrow> jsstring \<Rightarrow> request" where
  "quiz_call env req quizId =
     \<lparr>url = BACKEND_URL env @ lit ''/pdf-quizzes/quiz/'' @ quizId,
      http_method = GET_method,
      headers = [(lit ''Authorization'',
                  or_else (headers_get (req_headers req) (lit ''Authorization'')) [])],
      body = None\<rparr>"

definition GET :: "proxy_env \<Rightarrow> proxy_request \<Rightarrow> jsstring \<Rightarrow> next_response \<times> effect list" where
  "GET env req quizId =
     (let call = quiz_call env req quizId
      in case backend env call of
           Inl e \<Rightarrow> (internal_server_error, [Fetch call, Console_error])
         | Inr response \<Rightarrow>
             if \<not> ok response
             then (case text_result response of
                     Inl e \<Rightarrow> (internal_server_error, [Fetch call, Console_error])
                   | Inr errorText \<Rightarrow>
                       (case backend_error response of
                          None \<Rightarrow> (internal_server_error, [Fetch call, Console_error])
                        | Some error_response \<Rightarrow> (error_response, [Fetch call])))
             else (case json_result response of
                     Inl e \<Rightarrow> (internal_server_error, [Fetch call, Console_error])
                   | Inr data \<Rightarrow>
                       (\<lparr>response_body = data, response_status = 200\<rparr>, [Fetch call])))"

text \<open>The upload proxy, \<open>POST\<close> of \<open>/api/pdf-quizzes/upload\<close>.\<close>

definition upload_call :: "proxy_env \<Rightarrow> proxy_request \<Rightarrow> json \<Rightarrow> request" where
  "upload_call env req b =
     \<lparr>url = BACKEND_URL env @ lit ''/pdf-quizzes/upload'',
      http_method = POST_method,
      headers = [(lit ''Content-Type'', lit ''application/json''),
                 (lit ''Authorization'',
                  or_else (headers_get (req_headers req) (lit ''Authorization'')) [])],
      body = Some b\<rparr>"

definition POST :: "proxy_env \<Rightarrow> proxy_request \<Rightarrow> next_response \<times> effect list" where
  "POST env req =
     (case req_json req of
        Inl e \<Rightarrow> (internal_server_error, [Console_error])
      | Inr b \<Rightarrow>
          (let call = upload_call env req b
           in case backend env call of
                Inl e \<Rightarrow> (internal_server_error, [Fetch call, Console_error])
              | Inr response \<Rightarrow>
                  if \<not> ok response
                  then (case text_result response of
                          Inl e \<Rightarrow> (internal_server_error, [Fetch call, Console_error])
                        | Inr errorText \<Rightarrow>
                            (case backend_error response of
                               None \<Rightarrow>
                                 (internal_server_error, [Fetch call, Console_error])
                             | Some error_response \<Rightarrow> (error_response, [Fetch call])))
                  else (case json_result response of
                          Inl e \<Rightarrow> (internal_server_error, [Fetch call, Console_error])
                        | Inr data \<Rightarrow>
                            (\<lparr>response_body = data, response_status = 200\<rparr>,
                             [Fetch call]))))"

section \<open>Properties of the quiz view\<close>

lemma trim_Nil: "trim [] = []"
  by (simp add: trim_def)

lemma unanswered_iff:
  "unanswered ans q \<longleftrightarrow>
     map_of ans (q_id q) = None \<or> (\<exists>a. map_of ans (q_id q) = Some a \<and> trim a = [])"
  by (cases "map_of ans (q_id q)") (auto simp: unanswered_def trim_Nil)

lemma list_ex_unanswered:
  "list_ex (unanswered ans) qs \<longleftrightarrow>
     (\<exists>q \<in> set qs. map_of ans (q_id q) = None \<or>
                    (\<exists>a. map_of ans (q_id q) = Some a \<and> trim a = []))"
  by (simp add: list_ex_iff unanswered_iff)

lemma handleSubmit_no_quiz: "quiz st = None \<Longrightarrow> handleSubmit net quizId st = (st, [])"
  by (simp add: handleSubmit_def)

lemma click_submit_effects:
  "e \<in> set (snd (click_submit net quizId st)) \<Longrightarrow> submit_rendered st \<and> \<not> submit_disabled st"
  by (auto simp: click_submit_def split: if_splits)

lemma floor_rat_numeral:
  "\<lfloor>(numeral a / numeral b :: rat)\<rfloor> = numeral a div numeral b"
  using floor_divide_of_int_eq [of "numeral a" "numeral b", where ?'a = rat] by simp

lemma digits_667: "digits 667 = lit ''667''"
  by (simp add: digits.simps lit_def)

lemma number_text_2_3: "number_text 2 = Some (lit ''2'')" "number_text 3 = Some (lit ''3'')"
  by (simp_all add: number_text_def digits.simps lit_def)

lemma toFixed_rounds_to_66_7:
  assumes "1333 / 20 \<le> p" and "p < 267 / 4"
  shows "toFixed 1 p = Some (lit ''66.7'')"
proof -
  have a: "\<bar>p\<bar> = p" using assms by simp
  have "\<lfloor>p * 10 + 1 / 2\<rfloor> = 667"
    using assms by (intro floor_unique) simp_all
  then have n: "nat \<lfloor>\<bar>p\<bar> * 10 ^ 1 + 1 / 2\<rfloor> = 667"
    by (simp add: a)
  have s: "\<not> p < 0" "\<not> 10 ^ 21 \<le> \<bar>p\<bar>" using assms by simp_all
  show ?thesis
    unfolding toFixed_def Let_def n digits_667 using s by (simp add: lit_def)
qed

text \<open>
  C8.  Toggling the hint of a question twice gives the hint of that question the
  visibility it had before, and one toggle leaves the \<open>showHints\<close> entry of every other
  question as it was.
\<close>

theorem toggleHint_twice_and_frame:
  "hint_shown (toggleHint q (toggleHint q st)) q = hint_shown st q \<and>
   (\<forall>q'. q' \<noteq> q \<longrightarrow> showHints (toggleHint q st) q' = showHints st q')"
  by (simp add: toggleHint_def hint_shown_def)

theorem toggleHint_twice_and_frame_witness:
  "(2::nat) \<noteq> 1 \<and>
   hint_shown (toggleHint 1 (toggleHint 1
      \<lparr>quiz = None, answers = [], showHints = Map.empty, isSubmitting = False,
       results = None, loading = False, error = None\<rparr>)) 1
     = hint_shown \<lparr>quiz = None, answers = [], showHints = Map.empty, isSubmitting = False,
                   results = None, loading = False, error = None\<rparr> 1 \<and>
   showHints (toggleHint 1
      \<lparr>quiz = None, answers = [], showHints = [2 \<mapsto> True], isSubmitting = False,
       results = None, loading = False, error = None\<rparr>) 2 = Some True"
  using toggleHint_twice_and_frame [of 1
      "\<lparr>quiz = None, answers = [], showHints = Map.empty, isSubmitting = False,
        results = None, loading = False, error = None\<rparr>"]
    toggleHint_twice_and_frame [of 1
      "\<lparr>quiz = None, answers = [], showHints = [2 \<mapsto> True], isSubmitting = False,
        results = None, loading = False, error = None\<rparr>"]
  by simp

text \<open>
  C1.  A click on the submit button issues the request to the submit endpoint only
  from a state in which every question of the quiz has an answer whose trimmed value is
  not empty; in every other state of a loaded quiz the button is disabled.
\<close>

theorem submit_only_when_all_answered:
  assumes "quiz st = Some qz"
  shows "(Fetch r \<in> set (snd (click_submit net quizId st)) \<longrightarrow>
            (\<forall>q \<in> set (questions qz).
               \<exists>a. map_of (answers st) (q_id q) = Some a \<and> trim a \<noteq> [])) \<and>
         (\<not> (\<forall>q \<in> set (questions qz).
               \<exists>a. map_of (answers st) (q_id q) = Some a \<and> trim a \<noteq> []) \<longrightarrow>
            submit_disabled st)"
proof -
  have dis: "submit_disabled st \<longleftrightarrow>
      isSubmitting st \<or>
      (\<exists>q \<in> set (questions qz). map_of (answers st) (q_id q) = None \<or>
         (\<exists>a. map_of (answers st) (q_id q) = Some a \<and> trim a = []))"
    using assms by (simp add: submit_disabled_def list_ex_unanswered)
  have blank: "\<not> (\<forall>q \<in> set (questions qz).
               \<exists>a. map_of (answers st) (q_id q) = Some a \<and> trim a \<noteq> []) \<Longrightarrow>
            submit_disabled st"
    unfolding dis by fastforce
  have "Fetch r \<in> set (snd (click_submit net quizId st)) \<Longrightarrow> \<not> submit_disabled st"
    using click_submit_effects by blast
  with blank show ?thesis by blast
qed

theorem submit_only_when_all_answered_witness:
  "Fetch (submit_request 7 [(1, lit ''b'')])
     \<in> set (snd (click_submit (\<lambda>_. Inl Thrown) 7
          \<lparr>quiz = Some \<lparr>quiz_id = 7, quiz_title = lit ''t'',
                         questions = [\<lparr>q_id = 1, question_text = lit ''q'',
                                       question_type = Short_answer, options = None,
                                       correct_answer = lit ''b'', hint = lit ''h'',
                                       citation = lit ''c'', points = 1\<rparr>]\<rparr>,
           answers = [(1, lit ''b'')], showHints = Map.empty, isSubmitting = False,
           results = None, loading = False, error = None\<rparr>)) \<and>
   map_of [(1::nat, lit ''b'')] 1 = Some (lit ''b'') \<and> trim (lit ''b'') \<noteq> []"
  using submit_only_when_all_answered [of
      "\<lparr>quiz = Some \<lparr>quiz_id = 7, quiz_title = lit ''t'',
                       questions = [\<lparr>q_id = 1, question_text = lit ''q'',
                                     question_type = Short_answer, options = None,
                                     correct_answer = lit ''b'', hint = lit ''h'',
                                     citation = lit ''c'', points = 1\<rparr>]\<rparr>,
        answers = [(1, lit ''b'')], showHints = Map.empty, isSubmitting = False,
        results = None, loading = False, error = None\<rparr>"
      "\<lparr>quiz_id = 7, quiz_title = lit ''t'',
        questions = [\<lparr>q_id = 1, question_text = lit ''q'',
                      question_type = Short_answer, options = None,
                      correct_answer = lit ''b'', hint = lit ''h'',
                      citation = lit ''c'', points = 1\<rparr>]\<rparr>"
      "submit_request 7 [(1, lit ''b'')]" "\<lambda>_. Inl Thrown" 7]
  by (simp add: click_submit_def submit_rendered_def submit_disabled_def unanswered_def
      handleSubmit_def trim_def is_js_space_def lit_def)

text \<open>
  C2, as the code has it.  With a quiz loaded, the submit button is disabled if and only
  if a submission is in flight (\<open>isSubmitting\<close>) or some question has an answer that is
  absent, empty or nothing but white space.
\<close>

theorem submit_disabled_iff:
  assumes "quiz st = Some qz"
  shows "submit_disabled st \<longleftrightarrow>
           isSubmitting st \<or>
           (\<exists>q \<in> set (questions qz).
              map_of (answers st) (q_id q) = None \<or>
              (\<exists>a. map_of (answers st) (q_id q) = Some a \<and> trim a = []))"
  using assms by (simp add: submit_disabled_def list_ex_unanswered)

theorem submit_disabled_iff_witness:
  "submit_disabled
     \<lparr>quiz = Some \<lparr>quiz_id = 7, quiz_title = lit ''t'',
                    questions = [\<lparr>q_id = 1, question_text = lit ''q'',
                                  question_type = Short_answer, options = None,
                                  correct_answer = lit ''b'', hint = lit ''h'',
                                  citation = lit ''c'', points = 1\<rparr>]\<rparr>,
      answers = [(1, lit ''  '')], showHints = Map.empty, isSubmitting = False,
      results = None, loading = False, error = None\<rparr> \<and>
   map_of [(1::nat, lit ''  '')] 1 = Some (lit ''  '') \<and> trim (lit ''  '') = []"
  using submit_disabled_iff [of
      "\<lparr>quiz = Some \<lparr>quiz_id = 7, quiz_title = lit ''t'',
                       questions = [\<lparr>q_id = 1, question_text = lit ''q'',
                                     question_type = Short_answer, options = None,
                                     correct_answer = lit ''b'', hint = lit ''h'',
                                     citation = lit ''c'', points = 1\<rparr>]\<rparr>,
        answers = [(1, lit ''  '')], showHints = Map.empty, isSubmitting = False,
        results = None, loading = False, error = None\<rparr>"
      "\<lparr>quiz_id = 7, quiz_title = lit ''t'',
        questions = [\<lparr>q_id = 1, question_text = lit ''q'',
                      question_type = Short_answer, options = None,
                      correct_answer = lit ''b'', hint = lit ''h'',
                      citation = lit ''c'', points = 1\<rparr>]\<rparr>"]
  by (simp add: trim_def is_js_space_def lit_def)

text \<open>
  While a submission is in flight the button is disabled although the one question of
  the quiz has the answer \<open>b\<close>: the predicate over the questions is false and the
  button's \<open>disabled\<close> is true.
\<close>

theorem submit_disabled_while_submitting:
  "submit_disabled
     \<lparr>quiz = Some \<lparr>quiz_id = 7, quiz_title = lit ''t'',
                    questions = [\<lparr>q_id = 1, question_text = lit ''q'',
                                  question_type = Short_answer, options = None,
                                  correct_answer = lit ''b'', hint = lit ''h'',
                                  citation = lit ''c'', points = 1\<rparr>]\<rparr>,
      answers = [(1, lit ''b'')], showHints = Map.empty, isSubmitting = True,
      results = None, loading = False, error = None\<rparr> \<and>
   \<not> list_ex (unanswered [(1, lit ''b'')])
        [\<lparr>q_id = 1, question_text = lit ''q'', question_type = Short_answer,
          options = None, correct_answer = lit ''b'', hint = lit ''h'',
          citation = lit ''c'', points = 1\<rparr>] \<and>
   map_of [(1::nat, lit ''b'')] 1 = Some (lit ''b'') \<and> trim (lit ''b'') = lit ''b''"
  by (simp add: submit_disabled_def unanswered_def trim_def is_js_space_def lit_def)

text \<open>
  C4, as the code has it.  The percentage on the results summary is the \<open>percentage\<close>
  field of the submission result, printed with \<open>toFixed(1)\<close>; it is not computed from
  the two scores.  For a result with \<open>total_score = 2\<close>, \<open>max_score = 3\<close> and a
  percentage that rounds to 66.7 (from 66.65 up to, but not including, 66.75, as two
  thirds of a hundred is) the summary reads \<open>Score: 2/3 (66.7%)\<close>.
\<close>

theorem score_line_two_of_three:
  assumes "total_score r = 2" and "max_score r = 3"
    and "1333 / 20 \<le> percentage r" and "percentage r < 267 / 4"
  shows "score_line r = Some (lit ''Score: 2/3 (66.7%)'')"
  unfolding score_line_def using assms
  by (simp add: number_text_2_3 toFixed_rounds_to_66_7 del: One_nat_def) (simp add: lit_def)

text \<open>The witness takes for the percentage the double nearest to \<open>200 / 3\<close>.\<close>

theorem score_line_two_of_three_witness:
  "(1333 / 20 :: rat) \<le> 4691249611844267 / 70368744177664 \<and>
   (4691249611844267 / 70368744177664 :: rat) < 267 / 4 \<and>
   score_line \<lparr>result_list = [], total_score = 2, max_score = 3,
               percentage = 4691249611844267 / 70368744177664\<rparr>
     = Some (lit ''Score: 2/3 (66.7%)'')"
  using score_line_two_of_three [of
      "\<lparr>result_list = [], total_score = 2, max_score = 3,
        percentage = 4691249611844267 / 70368744177664\<rparr>"]
  by simp

text \<open>
  A result with the same two scores and the percentage field 50 is rendered with
  \<open>50.0%\<close>.
\<close>

theorem score_line_uses_percentage_field:
  "score_line \<lparr>result_list = [], total_score = 2, max_score = 3, percentage = 50\<rparr>
     = Some (lit ''Score: 2/3 (50.0%)'') \<and>
   score_line \<lparr>result_list = [], total_score = 2, max_score = 3, percentage = 50\<rparr>
     \<noteq> Some (lit ''Score: 2/3 (66.7%)'')"
  by (simp add: score_line_def number_text_2_3 toFixed_def digits.simps Let_def
      floor_rat_numeral) (simp add: lit_def)

section \<open>Properties of the upload form\<close>

lemma b64_alphabet_no_comma: "c \<in> set b64_alphabet \<Longrightarrow> c \<noteq> 0x2C"
  by (auto simp: b64_alphabet_def lit_def)

lemma b64_char_no_comma: "n < 64 \<Longrightarrow> b64_char n \<noteq> 0x2C"
proof -
  assume "n < 64"
  then have "n < length b64_alphabet" by (simp add: b64_alphabet_def lit_def)
  then have "b64_char n \<in> set b64_alphabet" unfolding b64_char_def by (rule nth_mem)
  then show ?thesis by (rule b64_alphabet_no_comma)
qed

lemma unat_byte: "unat (a :: 8 word) < 256"
  using unsigned_less [of a, where ?'a = nat] by simp

lemma base64_no_comma: "0x2C \<notin> set (base64_encode bs)"
proof (induction bs rule: base64_encode.induct)
  case 1
  then show ?case by simp
next
  case (2 a)
  have "unat a div 4 < 64" "unat a mod 4 * 16 < 64" using unat_byte [of a] by simp_all
  then show ?case using b64_char_no_comma by auto
next
  case (3 a b)
  have "unat a div 4 < 64" "unat a mod 4 * 16 + unat b div 16 < 64" "unat b mod 16 * 4 < 64"
    using unat_byte [of a] unat_byte [of b] by simp_all
  then show ?case using b64_char_no_comma by auto
next
  case (4 a b c rest)
  have "unat a div 4 < 64" "unat a mod 4 * 16 + unat b div 16 < 64"
    "unat b mod 16 * 4 + unat c div 64 < 64" "unat c mod 64 < 64"
    using unat_byte [of a] unat_byte [of b] unat_byte [of c] by simp_all
  with 4 show ?case using b64_char_no_comma by auto
qed

lemma split_on_absent: "c \<notin> set xs \<Longrightarrow> split_on c xs = [xs]"
  by (induction xs) auto

lemma split_on_first: "c \<notin> set xs \<Longrightarrow> split_on c (xs @ c # ys) = xs # split_on c ys"
  by (induction xs) auto

lemma fileToBase64_pdf:
  assumes "file_type f = lit ''application/pdf''" and "\<not> read_fails env"
  shows "fileToBase64 env f = Inr (Some (base64_encode (file_bytes f)))"
proof -
  have pre: "0x2C \<notin> set (lit ''data:application/pdf;base64'')"
    by (simp add: lit_def)
  have "readAsDataURL f = lit ''data:application/pdf;base64'' @ 0x2C # base64_encode (file_bytes f)"
    by (simp add: readAsDataURL_def assms lit_def)
  then have "split_on 0x2C (readAsDataURL f)
      = [lit ''data:application/pdf;base64'', base64_encode (file_bytes f)]"
    using split_on_first [OF pre] split_on_absent [OF base64_no_comma] by simp
  then show ?thesis using assms by (simp add: fileToBase64_def element_def)
qed

lemma strip_pdf_suffix_example: "strip_pdf_suffix (lit ''notes.PDF'') = lit ''notes''"
  by (simp add: strip_pdf_suffix_def is_dot_pdf_def lit_def)

text \<open>
  C5.  Whatever the form held before, selecting a file whose MIME type is not
  \<open>application/pdf\<close> leaves the file and the title as they were and sets an upload
  status of type error; selecting a PDF stores the file and replaces the title by the
  file name without its \<open>.pdf\<close> extension.
\<close>

theorem handleFileChange_pdf_gate:
  "(file_type f \<noteq> lit ''application/pdf'' \<longrightarrow>
      form_file (handleFileChange (Some f) st) = form_file st \<and>
      title (handleFileChange (Some f) st) = title st \<and>
      uploadStatus (handleFileChange (Some f) st) =
        \<lparr>status_type = Some Status_error,
         message = Some (JStr (lit ''Please select a valid PDF file.''))\<rparr>) \<and>
   (file_type f = lit ''application/pdf'' \<longrightarrow>
      form_file (handleFileChange (Some f) st) = Some f \<and>
      title (handleFileChange (Some f) st) = strip_pdf_suffix (file_name f))"
  by (simp add: handleFileChange_def)

theorem handleFileChange_pdf_gate_witness:
  "lit ''text/plain'' \<noteq> lit ''application/pdf'' \<and>
   form_file (handleFileChange
      (Some \<lparr>file_name = lit ''a.txt'', file_type = lit ''text/plain'', file_bytes = [0x41]\<rparr>)
      \<lparr>form_file = None, title = lit ''old'', isUploading = False,
       uploadStatus = \<lparr>status_type = None, message = Some (JStr [])\<rparr>\<rparr>) = None \<and>
   title (handleFileChange
      (Some \<lparr>file_name = lit ''a.txt'', file_type = lit ''text/plain'', file_bytes = [0x41]\<rparr>)
      \<lparr>form_file = None, title = lit ''old'', isUploading = False,
       uploadStatus = \<lparr>status_type = None, message = Some (JStr [])\<rparr>\<rparr>) = lit ''old'' \<and>
   status_type (uploadStatus (handleFileChange
      (Some \<lparr>file_name = lit ''a.txt'', file_type = lit ''text/plain'', file_bytes = [0x41]\<rparr>)
      \<lparr>form_file = None, title = lit ''old'', isUploading = False,
       uploadStatus = \<lparr>status_type = None, message = Some (JStr [])\<rparr>\<rparr>)) = Some Status_error \<and>
   title (handleFileChange
      (Some \<lparr>file_name = lit ''notes.PDF'', file_type = lit ''application/pdf'',
             file_bytes = [0x25]\<rparr>)
      \<lparr>form_file = None, title = lit ''old'', isUploading = False,
       uploadStatus = \<lparr>status_type = None, message = Some (JStr [])\<rparr>\<rparr>) = lit ''notes''"
  using handleFileChange_pdf_gate [of
      "\<lparr>file_name = lit ''a.txt'', file_type = lit ''text/plain'', file_bytes = [0x41]\<rparr>"
      "\<lparr>form_file = None, title = lit ''old'', isUploading = False,
        uploadStatus = \<lparr>status_type = None, message = Some (JStr [])\<rparr>\<rparr>"]
    handleFileChange_pdf_gate [of
      "\<lparr>file_name = lit ''notes.PDF'', file_type = lit ''application/pdf'',
        file_bytes = [0x25]\<rparr>"
      "\<lparr>form_file = None, title = lit ''old'', isUploading = False,
        uploadStatus = \<lparr>status_type = None, message = Some (JStr [])\<rparr>\<rparr>"]
  by (simp add: strip_pdf_suffix_example) (simp add: lit_def)

lemma fetches_upload_failed: "fetches (snd (upload_failed st issued e)) = fetches issued"
  by (induction issued rule: fetches.induct) (simp_all add: upload_failed_def)

text \<open>
  C6, as the code has it.  With a PDF selected and a title that is not blank: if the
  file is read, submitting the form issues exactly one request, to the upload endpoint,
  whose JSON body has the trimmed title as \<open>title\<close> and the base64 encoding of the
  file's bytes as \<open>file_content\<close>; if reading the file fails, no request is issued.
\<close>

theorem upload_issues_one_request:
  assumes "form_file st = Some f" and "file_type f = lit ''application/pdf''"
    and "trim (title st) \<noteq> []"
  shows "(\<not> read_fails env \<longrightarrow>
            fetches (snd (upload_handleSubmit env st)) =
              [\<lparr>url = lit ''/api/pdf-quizzes/upload'',
                http_method = POST_method,
                headers = [(lit ''Content-Type'', lit ''application/json''),
                           (lit ''Authorization'', lit ''Bearer 1'')],
                body = Some (JObj [(lit ''title'', JStr (trim (title st))),
                                   (lit ''file_content'',
                                    JStr (base64_encode (file_bytes f)))])\<rparr>]) \<and>
         (read_fails env \<longrightarrow> fetches (snd (upload_handleSubmit env st)) = [])"
proof (intro conjI impI)
  assume ok_read: "\<not> read_fails env"
  let ?req = "upload_request (title st) (Some (base64_encode (file_bytes f)))"
  have b: "fileToBase64 env f = Inr (Some (base64_encode (file_bytes f)))"
    using assms(2) ok_read by (rule fileToBase64_pdf)
  have "fetches (snd (upload_handleSubmit env st)) = [?req]"
    using assms(1,3)
    by (simp add: upload_handleSubmit_def b Let_def fetches_upload_failed
        split: sum.splits)
  moreover have "lit ''Bearer '' @ digits 1 = lit ''Bearer 1''"
    by (simp add: digits.simps lit_def)
  ultimately show "fetches (snd (upload_handleSubmit env st)) =
      [\<lparr>url = lit ''/api/pdf-quizzes/upload'',
        http_method = POST_method,
        headers = [(lit ''Content-Type'', lit ''application/json''),
                   (lit ''Authorization'', lit ''Bearer 1'')],
        body = Some (JObj [(lit ''title'', JStr (trim (title st))),
                           (lit ''file_content'',
                            JStr (base64_encode (file_bytes f)))])\<rparr>]"
    by (simp add: upload_request_def)
next
  assume "read_fails env"
  then have "fileToBase64 env f = Inl Thrown"
    by (simp add: fileToBase64_def)
  then show "fetches (snd (upload_handleSubmit env st)) = []"
    using assms(1,3)
    by (simp add: upload_handleSubmit_def fetches_upload_failed)
qed

theorem upload_issues_one_request_witness:
  "trim (lit '' Notes '') = lit ''Notes'' \<and>
   fetches (snd (upload_handleSubmit
      \<lparr>read_fails = False, upload_fetch = (\<lambda>_. Inl Thrown), null_property_message = []\<rparr>
      \<lparr>form_file = Some \<lparr>file_name = lit ''notes.pdf'', file_type = lit ''application/pdf'',
                         file_bytes = [0x4D, 0x61, 0x6E]\<rparr>,
       title = lit '' Notes '', isUploading = False,
       uploadStatus = \<lparr>status_type = None, message = Some (JStr [])\<rparr>\<rparr>)) =
     [\<lparr>url = lit ''/api/pdf-quizzes/upload'',
       http_method = POST_method,
       headers = [(lit ''Content-Type'', lit ''application/json''),
                  (lit ''Authorization'', lit ''Bearer 1'')],
       body = Some (JObj [(lit ''title'', JStr (lit ''Notes'')),
                          (lit ''file_content'', JStr (lit ''TWFu''))])\<rparr>] \<and>
   fetches (snd (upload_handleSubmit
      \<lparr>read_fails = True,
       upload_fetch = (\<lambda>_. Inr \<lparr>status = 200, statusText = lit ''OK'', text_result = Inr [],
                                 json_result = Inr (JObj [])\<rparr>),
       null_property_message = []\<rparr>
      \<lparr>form_file = Some \<lparr>file_name = lit ''notes.pdf'', file_type = lit ''application/pdf'',
                         file_bytes = [0x4D, 0x61, 0x6E]\<rparr>,
       title = lit '' Notes '', isUploading = False,
       uploadStatus = \<lparr>status_type = None, message = Some (JStr [])\<rparr>\<rparr>)) = []"
  using upload_issues_one_request [of
      "\<lparr>form_file = Some \<lparr>file_name = lit ''notes.pdf'', file_type = lit ''application/pdf'',
                          file_bytes = [0x4D, 0x61, 0x6E]\<rparr>,
        title = lit '' Notes '', isUploading = False,
        uploadStatus = \<lparr>status_type = None, message = Some (JStr [])\<rparr>\<rparr>"
      "\<lparr>file_name = lit ''notes.pdf'', file_type = lit ''application/pdf'',
        file_bytes = [0x4D, 0x61, 0x6E]\<rparr>"
      "\<lparr>read_fails = False, upload_fetch = (\<lambda>_. Inl Thrown), null_property_message = []\<rparr>"]
    upload_issues_one_request [of
      "\<lparr>form_file = Some \<lparr>file_name = lit ''notes.pdf'', file_type = lit ''application/pdf'',
                          file_bytes = [0x4D, 0x61, 0x6E]\<rparr>,
        title = lit '' Notes '', isUploading = False,
        uploadStatus = \<lparr>status_type = None, message = Some (JStr [])\<rparr>\<rparr>"
      "\<lparr>file_name = lit ''notes.pdf'', file_type = lit ''application/pdf'',
        file_bytes = [0x4D, 0x61, 0x6E]\<rparr>"
      "\<lparr>read_fails = True,
        upload_fetch = (\<lambda>_. Inr \<lparr>status = 200, statusText = lit ''OK'', text_result = Inr [],
                                  json_result = Inr (JObj [])\<rparr>),
        null_property_message = []\<rparr>"]
  by (simp add: trim_def is_js_space_def b64_char_def b64_alphabet_def lit_def)

text \<open>
  When the \<open>FileReader\<close> reports an error, \<open>fileToBase64\<close> rejects and the handler
  goes to its \<open>catch\<close> clause before any call of \<open>fetch\<close>.
\<close>

theorem upload_no_request_when_read_fails:
  "fetches (snd (upload_handleSubmit
      \<lparr>read_fails = True, upload_fetch = (\<lambda>_. Inl Thrown), null_property_message = []\<rparr>
      \<lparr>form_file = Some \<lparr>file_name = lit ''notes.pdf'', file_type = lit ''application/pdf'',
                         file_bytes = [0x4D, 0x61, 0x6E]\<rparr>,
       title = lit ''Notes'', isUploading = False,
       uploadStatus = \<lparr>status_type = None, message = Some (JStr [])\<rparr>\<rparr>)) = [] \<and>
   trim (lit ''Notes'') = lit ''Notes''"
  by (simp add: upload_handleSubmit_def fileToBase64_def upload_failed_def trim_def
      is_js_space_def lit_def)




section \<open>Properties of the proxy route handlers\<close>

lemma or_else_Some: "or_else (Some a) [] = a"
  by (simp add: or_else_def)

lemma or_else_None: "or_else None b = b"
  by (simp add: or_else_def)

lemma fetches_GET: "fetches (snd (GET env req quizId)) = [quiz_call env req quizId]"
  by (simp add: GET_def Let_def split: sum.splits option.splits)

lemma fetches_POST:
  "fetches (snd (POST env req)) =
     (case req_json req of Inl e \<Rightarrow> [] | Inr b \<Rightarrow> [upload_call env req b])"
  by (simp add: POST_def Let_def split: sum.splits option.splits)

lemma backend_error_accepted:
  "300 \<le> status r \<Longrightarrow> status r \<le> 599 \<Longrightarrow> status r \<noteq> 304 \<Longrightarrow>
   backend_error r =
     Some \<lparr>response_body = JObj [(lit ''error'', JStr (lit ''Backend error: '' @ statusText r))],
           response_status = status r\<rparr>"
  by (auto simp: backend_error_def NextResponse_json_def null_body_status_def)

lemma backend_error_refused:
  "status r < 200 \<or> 599 < status r \<or> status r = 304 \<Longrightarrow> backend_error r = None"
  by (auto simp: backend_error_def NextResponse_json_def null_body_status_def)

lemma not_ok_from_300: "300 \<le> status r \<Longrightarrow> \<not> ok r"
  by (simp add: ok_def)

text \<open>
  C3, as the code has it.  In both proxies: when the backend answers with a status from
  300 to 599 other than 304 and the body of that answer is read, the proxy answers with
  the JSON body \<open>{error: "Backend error: " + statusText}\<close> and the backend's status; when
  anything inside the \<open>try\<close> throws (parsing the incoming body in the upload proxy, the
  \<open>fetch\<close>, reading the body of an answer that is not ok, building the error response for
  a status that a response with a body cannot carry, that is 304 or one outside 200-599,
  parsing the payload of an ok answer) the proxy answers with
  \<open>{error: "Internal server error"}\<close> and status 500.
\<close>

theorem proxy_error_responses:
  "(backend env (quiz_call env req quizId) = Inr r \<and> text_result r = Inr errorText \<and>
    300 \<le> status r \<and> status r \<le> 599 \<and> status r \<noteq> 304
      \<longrightarrow> fst (GET env req quizId) =
            \<lparr>response_body = JObj [(lit ''error'', JStr (lit ''Backend error: '' @ statusText r))],
             response_status = status r\<rparr>) \<and>
   (req_json req = Inr b \<and> backend env (upload_call env req b) = Inr r \<and>
    text_result r = Inr errorText \<and> 300 \<le> status r \<and> status r \<le> 599 \<and> status r \<noteq> 304
      \<longrightarrow> fst (POST env req) =
            \<lparr>response_body = JObj [(lit ''error'', JStr (lit ''Backend error: '' @ statusText r))],
             response_status = status r\<rparr>) \<and>
   (backend env (quiz_call env req quizId) = Inl e \<or>
    (backend env (quiz_call env req quizId) = Inr r' \<and> ok r' \<and> json_result r' = Inl e) \<or>
    (backend env (quiz_call env req quizId) = Inr r' \<and> \<not> ok r' \<and>
     (text_result r' = Inl e \<or> status r' < 200 \<or> 599 < status r' \<or> status r' = 304))
      \<longrightarrow> fst (GET env req quizId) =
            \<lparr>response_body = JObj [(lit ''error'', JStr (lit ''Internal server error''))],
             response_status = 500\<rparr>) \<and>
   (req_json req = Inl e \<or>
    (req_json req = Inr b \<and> backend env (upload_call env req b) = Inl e) \<or>
    (req_json req = Inr b \<and> backend env (upload_call env req b) = Inr r' \<and> ok r' \<and>
     json_result r' = Inl e) \<or>
    (req_json req = Inr b \<and> backend env (upload_call env req b) = Inr r' \<and> \<not> ok r' \<and>
     (text_result r' = Inl e \<or> status r' < 200 \<or> 599 < status r' \<or> status r' = 304))
      \<longrightarrow> fst (POST env req) =
            \<lparr>response_body = JObj [(lit ''error'', JStr (lit ''Internal server error''))],
             response_status = 500\<rparr>)"
proof (intro conjI impI)
  assume a: "backend env (quiz_call env req quizId) = Inr r \<and> text_result r = Inr errorText \<and>
    300 \<le> status r \<and> status r \<le> 599 \<and> status r \<noteq> 304"
  then have "\<not> ok r" by (simp add: not_ok_from_300)
  with a show "fst (GET env req quizId) =
      \<lparr>response_body = JObj [(lit ''error'', JStr (lit ''Backend error: '' @ statusText r))],
       response_status = status r\<rparr>"
    by (simp add: GET_def Let_def backend_error_accepted)
next
  assume a: "req_json req = Inr b \<and> backend env (upload_call env req b) = Inr r \<and>
    text_result r = Inr errorText \<and> 300 \<le> status r \<and> status r \<le> 599 \<and> status r \<noteq> 304"
  then have "\<not> ok r" by (simp add: not_ok_from_300)
  with a show "fst (POST env req) =
      \<lparr>response_body = JObj [(lit ''error'', JStr (lit ''Backend error: '' @ statusText r))],
       response_status = status r\<rparr>"
    by (simp add: POST_def Let_def backend_error_accepted)
next
  assume "backend env (quiz_call env req quizId) = Inl e \<or>
    (backend env (quiz_call env req quizId) = Inr r' \<and> ok r' \<and> json_result r' = Inl e) \<or>
    (backend env (quiz_call env req quizId) = Inr r' \<and> \<not> ok r' \<and>
     (text_result r' = Inl e \<or> status r' < 200 \<or> 599 < status r' \<or> status r' = 304))"
  then show "fst (GET env req quizId) =
      \<lparr>response_body = JObj [(lit ''error'', JStr (lit ''Internal server error''))],
       response_status = 500\<rparr>"
    by (auto simp: GET_def Let_def internal_server_error_def backend_error_refused
        split: sum.splits)
next
  assume "req_json req = Inl e \<or>
    (req_json req = Inr b \<and> backend env (upload_call env req b) = Inl e) \<or>
    (req_json req = Inr b \<and> backend env (upload_call env req b) = Inr r' \<and> ok r' \<and>
     json_result r' = Inl e) \<or>
    (req_json req = Inr b \<and> backend env (upload_call env req b) = Inr r' \<and> \<not> ok r' \<and>
     (text_result r' = Inl e \<or> status r' < 200 \<or> 599 < status r' \<or> status r' = 304))"
  then show "fst (POST env req) =
      \<lparr>response_body = JObj [(lit ''error'', JStr (lit ''Internal server error''))],
       response_status = 500\<rparr>"
    by (auto simp: POST_def Let_def internal_server_error_def backend_error_refused
        split: sum.splits)
qed

theorem proxy_error_responses_witness:
  "fst (GET \<lparr>NEXT_PUBLIC_BACKEND_URL = None,
             backend = (\<lambda>_. Inr \<lparr>status = 404, statusText = lit ''Not Found'',
                                  text_result = Inr (lit ''no quiz''),
                                  json_result = Inl Thrown\<rparr>)\<rparr>
            \<lparr>req_headers = Map.empty, req_json = Inr (JObj [])\<rparr> (lit ''7'')) =
     \<lparr>response_body = JObj [(lit ''error'', JStr (lit ''Backend error: Not Found''))],
      response_status = 404\<rparr> \<and>
   fst (POST \<lparr>NEXT_PUBLIC_BACKEND_URL = None,
              backend = (\<lambda>_. Inr \<lparr>status = 404, statusText = lit ''Not Found'',
                                   text_result = Inr (lit ''no quiz''),
                                   json_result = Inl Thrown\<rparr>)\<rparr>
             \<lparr>req_headers = Map.empty, req_json = Inr (JObj [])\<rparr>) =
     \<lparr>response_body = JObj [(lit ''error'', JStr (lit ''Backend error: Not Found''))],
      response_status = 404\<rparr> \<and>
   fst (GET \<lparr>NEXT_PUBLIC_BACKEND_URL = None, backend = (\<lambda>_. Inl Thrown)\<rparr>
            \<lparr>req_headers = Map.empty, req_json = Inr (JObj [])\<rparr> (lit ''7'')) =
     \<lparr>response_body = JObj [(lit ''error'', JStr (lit ''Internal server error''))],
      response_status = 500\<rparr> \<and>
   fst (POST \<lparr>NEXT_PUBLIC_BACKEND_URL = None, backend = (\<lambda>_. Inl Thrown)\<rparr>
             \<lparr>req_headers = Map.empty, req_json = Inr (JObj [])\<rparr>) =
     \<lparr>response_body = JObj [(lit ''error'', JStr (lit ''Internal server error''))],
      response_status = 500\<rparr> \<and>
   fst (POST \<lparr>NEXT_PUBLIC_BACKEND_URL = None,
              backend = (\<lambda>_. Inr \<lparr>status = 600, statusText = [], text_result = Inr [],
                                   json_result = Inl Thrown\<rparr>)\<rparr>
             \<lparr>req_headers = Map.empty, req_json = Inr (JObj [])\<rparr>) =
     \<lparr>response_body = JObj [(lit ''error'', JStr (lit ''Internal server error''))],
      response_status = 500\<rparr>"
  using proxy_error_responses [where
      env = "\<lparr>NEXT_PUBLIC_BACKEND_URL = None,
               backend = (\<lambda>_. Inr \<lparr>status = 404, statusText = lit ''Not Found'',
                                    text_result = Inr (lit ''no quiz''),
                                    json_result = Inl Thrown\<rparr>)\<rparr>"
      and req = "\<lparr>req_headers = Map.empty, req_json = Inr (JObj [])\<rparr>"
      and quizId = "lit ''7''" and b = "JObj []" and errorText = "lit ''no quiz''"
      and r = "\<lparr>status = 404, statusText = lit ''Not Found'',
                text_result = Inr (lit ''no quiz''), json_result = Inl Thrown\<rparr>"]
    proxy_error_responses [where
      env = "\<lparr>NEXT_PUBLIC_BACKEND_URL = None, backend = (\<lambda>_. Inl Thrown)\<rparr>"
      and req = "\<lparr>req_headers = Map.empty, req_json = Inr (JObj [])\<rparr>"
      and quizId = "lit ''7''" and b = "JObj []" and e = Thrown]
    proxy_error_responses [where
      env = "\<lparr>NEXT_PUBLIC_BACKEND_URL = None,
               backend = (\<lambda>_. Inr \<lparr>status = 600, statusText = [], text_result = Inr [],
                                    json_result = Inl Thrown\<rparr>)\<rparr>"
      and req = "\<lparr>req_headers = Map.empty, req_json = Inr (JObj [])\<rparr>"
      and b = "JObj []"
      and r' = "\<lparr>status = 600, statusText = [], text_result = Inr [],
                 json_result = Inl Thrown\<rparr>"]
  by (simp add: ok_def) (simp add: lit_def)

text \<open>
  Two answers of the backend that are not ok and are answered with 500: a 404 whose
  body cannot be read, where the \<open>await response.text()\<close> before the error response
  throws, and a 304 whose body is read, where \<open>NextResponse.json\<close> refuses the status.
\<close>

theorem proxy_error_body_unreadable:
  "response_status (fst (GET
      \<lparr>NEXT_PUBLIC_BACKEND_URL = None,
       backend = (\<lambda>_. Inr \<lparr>status = 404, statusText = lit ''Not Found'',
                            text_result = Inl Thrown, json_result = Inl Thrown\<rparr>)\<rparr>
      \<lparr>req_headers = Map.empty, req_json = Inr (JObj [])\<rparr> (lit ''7''))) = 500 \<and>
   response_status (fst (GET
      \<lparr>NEXT_PUBLIC_BACKEND_URL = None,
       backend = (\<lambda>_. Inr \<lparr>status = 304, statusText = lit ''Not Modified'',
                            text_result = Inr [], json_result = Inl Thrown\<rparr>)\<rparr>
      \<lparr>req_headers = Map.empty, req_json = Inr (JObj [])\<rparr> (lit ''7''))) = 500"
  by (simp add: GET_def ok_def internal_server_error_def backend_error_def
      NextResponse_json_def null_body_status_def)

text \<open>
  C7, as the code has it.  The fetch proxy makes exactly one backend call for every
  incoming request, a GET of \<open>{backend}/pdf-quizzes/quiz/{id}\<close>.  The upload proxy makes
  exactly one backend call for every incoming request whose body parses as JSON, a POST
  of the parsed body to \<open>{backend}/pdf-quizzes/upload\<close>, and none when the body does not
  parse.  Both pass on the value of an incoming Authorization header, and on an ok
  answer with a JSON payload both answer with that payload.
\<close>

theorem proxy_forwarding:
  "fetches (snd (GET env req quizId)) =
     [\<lparr>url = BACKEND_URL env @ lit ''/pdf-quizzes/quiz/'' @ quizId,
       http_method = GET_method,
       headers = [(lit ''Authorization'',
                   or_else (headers_get (req_headers req) (lit ''Authorization'')) [])],
       body = None\<rparr>] \<and>
   (req_json req = Inr b \<longrightarrow>
      fetches (snd (POST env req)) =
        [\<lparr>url = BACKEND_URL env @ lit ''/pdf-quizzes/upload'',
          http_method = POST_method,
          headers = [(lit ''Content-Type'', lit ''application/json''),
                     (lit ''Authorization'',
                      or_else (headers_get (req_headers req) (lit ''Authorization'')) [])],
          body = Some b\<rparr>]) \<and>
   (req_json req = Inl e \<longrightarrow> fetches (snd (POST env req)) = []) \<and>
   (headers_get (req_headers req) (lit ''Authorization'') = Some a \<longrightarrow>
      or_else (headers_get (req_headers req) (lit ''Authorization'')) [] = a) \<and>
   (backend env (quiz_call env req quizId) = Inr r \<and> ok r \<and> json_result r = Inr data \<longrightarrow>
      fst (GET env req quizId) = \<lparr>response_body = data, response_status = 200\<rparr>) \<and>
   (req_json req = Inr b \<and> backend env (upload_call env req b) = Inr r \<and> ok r \<and>
    json_result r = Inr data \<longrightarrow>
      fst (POST env req) = \<lparr>response_body = data, response_status = 200\<rparr>)"
proof (intro conjI impI)
  show "fetches (snd (GET env req quizId)) =
     [\<lparr>url = BACKEND_URL env @ lit ''/pdf-quizzes/quiz/'' @ quizId,
       http_method = GET_method,
       headers = [(lit ''Authorization'',
                   or_else (headers_get (req_headers req) (lit ''Authorization'')) [])],
       body = None\<rparr>]"
    by (simp add: fetches_GET quiz_call_def)
next
  assume "req_json req = Inr b"
  then show "fetches (snd (POST env req)) =
        [\<lparr>url = BACKEND_URL env @ lit ''/pdf-quizzes/upload'',
          http_method = POST_method,
          headers = [(lit ''Content-Type'', lit ''application/json''),
                     (lit ''Authorization'',
                      or_else (headers_get (req_headers req) (lit ''Authorization'')) [])],
          body = Some b\<rparr>]"
    by (simp add: fetches_POST upload_call_def)
next
  assume "req_json req = Inl e"
  then show "fetches (snd (POST env req)) = []"
    by (simp add: fetches_POST)
next
  assume "headers_get (req_headers req) (lit ''Authorization'') = Some a"
  then show "or_else (headers_get (req_headers req) (lit ''Authorization'')) [] = a"
    by (simp add: or_else_Some)
next
  assume "backend env (quiz_call env req quizId) = Inr r \<and> ok r \<and> json_result r = Inr data"
  then show "fst (GET env req quizId) = \<lparr>response_body = data, response_status = 200\<rparr>"
    by (simp add: GET_def Let_def)
next
  assume "req_json req = Inr b \<and> backend env (upload_call env req b) = Inr r \<and> ok r \<and>
    json_result r = Inr data"
  then show "fst (POST env req) = \<lparr>response_body = data, response_status = 200\<rparr>"
    by (simp add: POST_def Let_def)
qed

theorem proxy_forwarding_witness:
  "ok \<lparr>status = 200, statusText = lit ''OK'', text_result = Inr [],
        json_result = Inr (JObj [(lit ''id'', JNum 7)]) :: exn + json\<rparr> \<and>
   fetches (snd (GET
      \<lparr>NEXT_PUBLIC_BACKEND_URL = None,
       backend = (\<lambda>_. Inr \<lparr>status = 200, statusText = lit ''OK'', text_result = Inr [],
                            json_result = Inr (JObj [(lit ''id'', JNum 7)])\<rparr>)\<rparr>
      \<lparr>req_headers = [lit ''authorization'' \<mapsto> lit ''Bearer 1''],
       req_json = Inr (JObj [(lit ''title'', JStr (lit ''Notes''))])\<rparr> (lit ''7''))) =
     [\<lparr>url = lit ''http://localhost:8000/pdf-quizzes/quiz/7'', http_method = GET_method,
       headers = [(lit ''Authorization'', lit ''Bearer 1'')], body = None\<rparr>] \<and>
   fetches (snd (POST
      \<lparr>NEXT_PUBLIC_BACKEND_URL = None,
       backend = (\<lambda>_. Inr \<lparr>status = 200, statusText = lit ''OK'', text_result = Inr [],
                            json_result = Inr (JObj [(lit ''id'', JNum 7)])\<rparr>)\<rparr>
      \<lparr>req_headers = [lit ''authorization'' \<mapsto> lit ''Bearer 1''],
       req_json = Inr (JObj [(lit ''title'', JStr (lit ''Notes''))])\<rparr>)) =
     [\<lparr>url = lit ''http://localhost:8000/pdf-quizzes/upload'', http_method = POST_method,
       headers = [(lit ''Content-Type'', lit ''application/json''),
                  (lit ''Authorization'', lit ''Bearer 1'')],
       body = Some (JObj [(lit ''title'', JStr (lit ''Notes''))])\<rparr>] \<and>
   fst (GET
      \<lparr>NEXT_PUBLIC_BACKEND_URL = None,
       backend = (\<lambda>_. Inr \<lparr>status = 200, statusText = lit ''OK'', text_result = Inr [],
                            json_result = Inr (JObj [(lit ''id'', JNum 7)])\<rparr>)\<rparr>
      \<lparr>req_headers = [lit ''authorization'' \<mapsto> lit ''Bearer 1''],
       req_json = Inr (JObj [(lit ''title'', JStr (lit ''Notes''))])\<rparr> (lit ''7'')) =
     \<lparr>response_body = JObj [(lit ''id'', JNum 7)], response_status = 200\<rparr> \<and>
   fst (POST
      \<lparr>NEXT_PUBLIC_BACKEND_URL = None,
       backend = (\<lambda>_. Inr \<lparr>status = 200, statusText = lit ''OK'', text_result = Inr [],
                            json_result = Inr (JObj [(lit ''id'', JNum 7)])\<rparr>)\<rparr>
      \<lparr>req_headers = [lit ''authorization'' \<mapsto> lit ''Bearer 1''],
       req_json = Inr (JObj [(lit ''title'', JStr (lit ''Notes''))])\<rparr>) =
     \<lparr>response_body = JObj [(lit ''id'', JNum 7)], response_status = 200\<rparr>"
  using proxy_forwarding [where
      env = "\<lparr>NEXT_PUBLIC_BACKEND_URL = None,
               backend = (\<lambda>_. Inr \<lparr>status = 200, statusText = lit ''OK'',
                                    text_result = Inr [],
                                    json_result = Inr (JObj [(lit ''id'', JNum 7)])\<rparr>)\<rparr>"
      and req = "\<lparr>req_headers = [lit ''authorization'' \<mapsto> lit ''Bearer 1''],
                  req_json = Inr (JObj [(lit ''title'', JStr (lit ''Notes''))])\<rparr>"
      and quizId = "lit ''7''"
      and b = "JObj [(lit ''title'', JStr (lit ''Notes''))]"
      and a = "lit ''Bearer 1''"
      and data = "JObj [(lit ''id'', JNum 7)]"
      and r = "\<lparr>status = 200, statusText = lit ''OK'', text_result = Inr [],
                json_result = Inr (JObj [(lit ''id'', JNum 7)])\<rparr>"]
  by (simp add: ok_def BACKEND_URL_def or_else_def headers_get_def ascii_lower_def lit_def)

text \<open>
  A POST whose body is not JSON: \<open>request.json()\<close> throws before the call of
  \<open>fetch\<close>, so there is no backend call.
\<close>

theorem upload_proxy_no_call_on_malformed_body:
  "fetches (snd (POST
      \<lparr>NEXT_PUBLIC_BACKEND_URL = None, backend = (\<lambda>_. Inl Thrown)\<rparr>
      \<lparr>req_headers = Map.empty, req_json = Inl (Error (lit ''Unexpected end of JSON input''))\<rparr>))
     = []"
  by (simp add: POST_def)

text \<open>
  C9, as the code has it.  For an incoming request without an Authorization header,
  every backend call of either proxy carries an Authorization header whose value is the
  empty string.  The fetch proxy makes that call for every such request; the upload
  proxy makes it for every such request whose body parses as JSON and makes no backend
  call, so sends no header, when the body does not parse.
\<close>

theorem proxy_sends_empty_authorization:
  assumes "headers_get (req_headers req) (lit ''Authorization'') = None"
  shows "map (\<lambda>c. map_of (headers c) (lit ''Authorization'')) (fetches (snd (GET env req quizId)))
           = [Some []] \<and>
         (\<forall>c \<in> set (fetches (snd (POST env req))).
            map_of (headers c) (lit ''Authorization'') = Some []) \<and>
         (req_json req = Inr b \<longrightarrow>
            map (\<lambda>c. map_of (headers c) (lit ''Authorization'')) (fetches (snd (POST env req)))
              = [Some []]) \<and>
         (req_json req = Inl e \<longrightarrow> fetches (snd (POST env req)) = [])"
  using assms
  by (auto simp: fetches_GET fetches_POST quiz_call_def upload_call_def or_else_None lit_def
      split: sum.splits)

theorem proxy_sends_empty_authorization_witness:
  "headers_get Map.empty (lit ''Authorization'') = None \<and>
   map (\<lambda>c. map_of (headers c) (lit ''Authorization''))
     (fetches (snd (GET \<lparr>NEXT_PUBLIC_BACKEND_URL = None, backend = (\<lambda>_. Inl Thrown)\<rparr>
                        \<lparr>req_headers = Map.empty, req_json = Inr (JObj [])\<rparr> (lit ''7''))))
     = [Some []] \<and>
   map (\<lambda>c. map_of (headers c) (lit ''Authorization''))
     (fetches (snd (POST \<lparr>NEXT_PUBLIC_BACKEND_URL = None, backend = (\<lambda>_. Inl Thrown)\<rparr>
                         \<lparr>req_headers = Map.empty, req_json = Inr (JObj [])\<rparr>)))
     = [Some []] \<and>
   fetches (snd (POST \<lparr>NEXT_PUBLIC_BACKEND_URL = None, backend = (\<lambda>_. Inl Thrown)\<rparr>
                      \<lparr>req_headers = Map.empty, req_json = Inl Thrown\<rparr>)) = []"
  using proxy_sends_empty_authorization [where
      req = "\<lparr>req_headers = Map.empty, req_json = Inr (JObj [])\<rparr>"
      and env = "\<lparr>NEXT_PUBLIC_BACKEND_URL = None, backend = (\<lambda>_. Inl Thrown)\<rparr>"
      and quizId = "lit ''7''" and b = "JObj []"]
    proxy_sends_empty_authorization [where
      req = "\<lparr>req_headers = Map.empty, req_json = Inl Thrown\<rparr>"
      and env = "\<lparr>NEXT_PUBLIC_BACKEND_URL = None, backend = (\<lambda>_. Inl Thrown)\<rparr>"
      and e = Thrown]
  by (simp add: headers_get_def)

text \<open>
  A POST without an Authorization header whose body is not JSON, to a backend that
  would answer 200: the upload proxy makes no backend call, so no Authorization header
  reaches the backend.
\<close>

theorem upload_proxy_sends_no_header_without_call:
  "headers_get [lit ''content-type'' \<mapsto> lit ''text/plain''] (lit ''Authorization'') = None \<and>
   fetches (snd (POST
      \<lparr>NEXT_PUBLIC_BACKEND_URL = Some (lit ''http://backend''),
       backend = (\<lambda>_. Inr \<lparr>status = 200, statusText = lit ''OK'', text_result = Inr [],
                            json_result = Inr (JObj [])\<rparr>)\<rparr>
      \<lparr>req_headers = [lit ''content-type'' \<mapsto> lit ''text/plain''],
       req_json = Inl (Error (lit ''Unexpected token''))\<rparr>)) = []"
  by (simp add: POST_def headers_get_def ascii_lower_def lit_def)

end
